theory Spec2Isabelle
  imports Main "HOL-Library.Word" "HOL-Library.Sublist"
begin

section \<open>JavaScript strings and the built-ins the composer calls\<close>

text \<open>
  A JavaScript string is a sequence of UTF-16 code units. Literals of the source that are
  plain ASCII are written with \<open>js\<close>, which maps every character to its code unit.
\<close>

type_synonym code_unit = "16 word"
type_synonym jsstring = "code_unit list"

definition js :: "string \<Rightarrow> jsstring" where
  "js s = map of_char s"

text \<open>
  \<open>String.prototype.trim\<close> strips the ECMAScript WhiteSpace and LineTerminator code
  points from both ends: TAB, LF, VT, FF, CR, SP, NBSP, U+1680, U+2000..U+200A, LS, PS,
  U+202F, U+205F, U+3000 and U+FEFF. All of them are single code units.
\<close>

definition isWhiteSpace :: "code_unit \<Rightarrow> bool" where
  "isWhiteSpace c \<longleftrightarrow>
     c \<in> set [0x0009, 0x000A, 0x000B, 0x000C, 0x000D, 0x0020, 0x00A0, 0x1680,
              0x2000, 0x2001, 0x2002, 0x2003, 0x2004, 0x2005, 0x2006, 0x2007,
              0x2008, 0x2009, 0x200A, 0x2028, 0x2029, 0x202F, 0x205F, 0x3000, 0xFEFF]"

definition trim :: "jsstring \<Rightarrow> jsstring" where
  "trim s = rev (dropWhile isWhiteSpace (rev (dropWhile isWhiteSpace s)))"

text \<open>\<open>Array.prototype.join\<close>: the separator goes between consecutive elements only.\<close>

fun join :: "'a list \<Rightarrow> 'a list list \<Rightarrow> 'a list" where
  "join sep [] = []"
| "join sep [x] = x"
| "join sep (x # y # ys) = x @ sep @ join sep (y # ys)"

text \<open>
  \<open>String.prototype.split\<close> with a one-character separator: the result always has at
  least one element, and an empty segment is kept.
\<close>

fun split :: "'a \<Rightarrow> 'a list \<Rightarrow> 'a list list" where
  "split sep [] = [[]]"
| "split sep (c # cs) =
     (if c = sep then [] # split sep cs
      else (case split sep cs of
              [] \<Rightarrow> [[c]]
            | w # ws \<Rightarrow> (c # w) # ws))"

text \<open>\<open>Array.prototype.pop\<close> returns the last element, or undefined on an empty array.\<close>

definition pop :: "'a list \<Rightarrow> 'a option" where
  "pop xs = (if xs = [] then None else Some (last xs))"

text \<open>\<open>Array.prototype.includes\<close>.\<close>

definition includes_arr :: "'a list \<Rightarrow> 'a \<Rightarrow> bool" where
  "includes_arr xs x \<longleftrightarrow> x \<in> set xs"

text \<open>
  \<open>String.prototype.toLowerCase\<close> follows the Unicode case mapping tables of the
  platform. The handlers below take it as the parameter \<open>lower\<close>, and what is proved
  of them in general holds for every such function. \<open>asciiLowerCase\<close> is what
  \<open>toLowerCase\<close> computes on a string of ASCII code units; it is not \<open>toLowerCase\<close>
  on other strings (U+212A, the Kelvin sign, lower-cases to k and is left as it is
  here), and it is applied below to ASCII file names only.
\<close>

definition asciiLowerCase :: "jsstring \<Rightarrow> jsstring" where
  "asciiLowerCase s = map (\<lambda>c. if 0x41 \<le> c \<and> c \<le> 0x5A then c + 0x20 else c) s"


section \<open>The chat input component\<close>

subsection \<open>Data\<close>

text \<open>\<open>interface AttachedFile\<close>.\<close>

record AttachedFile =
  name :: jsstring
  content :: jsstring
  type :: jsstring

text \<open>
  The props the handlers can see. \<open>onSendMessage\<close> is a callback: a call of it is the
  effect \<open>OnSendMessage\<close> below.
\<close>

record ChatInputProps =
  disabled :: bool
  showStopButton :: bool
  historicalSessionId :: "jsstring option"

text \<open>
  The component state: \<open>const [text, setText] = useState('')\<close> and
  \<open>const [attachedFiles, setAttachedFiles] = useState([])\<close>.
\<close>

record composer =
  textState :: jsstring
  attachedFiles :: "AttachedFile list"

text \<open>
  A selected \<open>File\<close>: its name, byte size and MIME type, and what \<open>await file.text()\<close>
  gives: the content, or the error the promise is rejected with.
\<close>

datatype read_error = NotFoundError | NotReadableError | SecurityError

record FileHandle =
  file_name :: jsstring
  file_size :: nat
  file_type :: jsstring
  file_text :: "read_error + jsstring"

text \<open>The part of a \<open>React.KeyboardEvent\<close> that \<open>handleKeyDown\<close> reads.\<close>

record KeyboardEvent =
  key :: jsstring
  shiftKey :: bool
  isComposing :: bool

text \<open>
  What a handler does besides updating the state, in the order it does it: calls of
  \<open>e.preventDefault()\<close>, of the \<open>onSendMessage\<close> callback (payload, display) and of the
  console.
\<close>

datatype effect =
    PreventDefault
  | OnSendMessage jsstring jsstring
  | ConsoleWarn jsstring
  | ConsoleError jsstring read_error

subsection \<open>isSendButtonDisabled\<close>

definition isSendButtonDisabled :: "ChatInputProps \<Rightarrow> composer \<Rightarrow> bool" where
  "isSendButtonDisabled props st \<longleftrightarrow>
     disabled props \<or> (trim (textState st) = [] \<and> length (attachedFiles st) = 0)"

subsection \<open>handleSubmit\<close>

text \<open>
  The literal in front of every file name of the display text. In the source file it is
  the four code points U+00F0, U+0178, U+201C, U+017D: the UTF-8 bytes F0 9F 93 8E of
  the paperclip U+1F4CE, each read as a Windows-1252 character.
\<close>

definition attachmentMarker :: jsstring where
  "attachmentMarker = [0x00F0, 0x0178, 0x201C, 0x017D]"

text \<open>The template literal of the \<open>map\<close> callback that tags one file.\<close>

definition fileBlock :: "AttachedFile \<Rightarrow> jsstring" where
  "fileBlock file =
     js ''\<newline>\<newline><nano_file_content type=\"file\" name=\"'' @ name file @ js ''\">\<newline>''
       @ content file @ js ''\<newline></nano_file_content>''"

definition fileContents :: "AttachedFile list \<Rightarrow> jsstring" where
  "fileContents files = join (js ''\<newline>'') (map fileBlock files)"

definition fileList :: "AttachedFile list \<Rightarrow> jsstring" where
  "fileList files =
     join (js ''\<newline>'') (map (\<lambda>file. attachmentMarker @ js '' '' @ name file) files)"

definition messageContent :: "jsstring \<Rightarrow> AttachedFile list \<Rightarrow> jsstring" where
  "messageContent trimmedText files =
     (if length files > 0 then
        (if trimmedText \<noteq> []
         then trimmedText @ js ''\<newline>\<newline><nano_attached_files>'' @ fileContents files
                @ js ''</nano_attached_files>''
         else js ''<nano_attached_files>'' @ fileContents files @ js ''</nano_attached_files>'')
      else trimmedText)"

definition displayContent :: "jsstring \<Rightarrow> AttachedFile list \<Rightarrow> jsstring" where
  "displayContent trimmedText files =
     (if length files > 0 then
        (if trimmedText \<noteq> [] then trimmedText @ js ''\<newline>\<newline>'' @ fileList files
         else fileList files)
      else trimmedText)"

text \<open>
  \<open>handleSubmit\<close> reads \<open>text\<close>, \<open>attachedFiles\<close> and \<open>onSendMessage\<close> only (its
  dependency array); the props are passed to the model all the same, so that what it
  ignores can be stated.
\<close>

definition handleSubmit :: "ChatInputProps \<Rightarrow> composer \<Rightarrow> effect list \<times> composer" where
  "handleSubmit props st =
     (let trimmedText = trim (textState st) in
      if trimmedText \<noteq> [] \<or> length (attachedFiles st) > 0 then
        ([PreventDefault,
          OnSendMessage (messageContent trimmedText (attachedFiles st))
                        (displayContent trimmedText (attachedFiles st))],
         st\<lparr>textState := [], attachedFiles := []\<rparr>)
      else ([PreventDefault], st))"

subsection \<open>handleKeyDown\<close>

definition handleKeyDown ::
  "ChatInputProps \<Rightarrow> KeyboardEvent \<Rightarrow> composer \<Rightarrow> effect list \<times> composer" where
  "handleKeyDown props e st =
     (if key e = js ''Enter'' \<and> \<not> shiftKey e \<and> \<not> isComposing e then
        (case handleSubmit props st of (fx, st') \<Rightarrow> (PreventDefault # fx, st'))
      else ([], st))"

subsection \<open>handleFileChange\<close>

definition allowedTypes :: "jsstring list" where
  "allowedTypes =
     map js [''.txt'', ''.md'', ''.markdown'', ''.json'', ''.csv'', ''.log'', ''.xml'',
             ''.yaml'', ''.yml'']"

text \<open>
  \<open>'.' + file.name.split('.').pop()?.toLowerCase()\<close>: were \<open>pop\<close> to give
  undefined, the optional chain would give undefined and the sum \<open>".undefined"\<close>.
\<close>

definition fileExt :: "(jsstring \<Rightarrow> jsstring) \<Rightarrow> jsstring \<Rightarrow> jsstring" where
  "fileExt lower nm =
     js ''.'' @ (case pop (split (of_char CHR ''.'') nm) of
                   None \<Rightarrow> js ''undefined''
                 | Some seg \<Rightarrow> lower seg)"

text \<open>
  One pass of the \<open>for\<close> loop, on the console calls made so far and \<open>newFiles\<close>: the
  two \<open>continue\<close> branches, then \<open>try\<close>/\<open>catch\<close> around the read.
\<close>

definition processFile ::
  "(jsstring \<Rightarrow> jsstring) \<Rightarrow> effect list \<times> AttachedFile list \<Rightarrow> FileHandle
     \<Rightarrow> effect list \<times> AttachedFile list" where
  "processFile lower acc file =
     (case acc of (fx, newFiles) \<Rightarrow>
        if \<not> includes_arr allowedTypes (fileExt lower (file_name file)) then
          (fx @ [ConsoleWarn (js ''File type '' @ fileExt lower (file_name file)
                   @ js '' not supported. Only text-based files are allowed.'')],
           newFiles)
        else if file_size file > 1024 * 1024 then
          (fx @ [ConsoleWarn (js ''File '' @ file_name file
                   @ js '' is too large. Maximum size is 1MB.'')],
           newFiles)
        else
          (case file_text file of
             Inr txt \<Rightarrow>
               (fx, newFiles @ [\<lparr>name = file_name file, content = txt,
                                  type = (if file_type file \<noteq> [] then file_type file
                                          else js ''text/plain'')\<rparr>])
           | Inl err \<Rightarrow>
               (fx @ [ConsoleError (js ''Error reading file '' @ file_name file @ js '':'') err],
                newFiles)))"

text \<open>
  \<open>e.target.files\<close> may be null. The update is functional
  (\<open>setAttachedFiles(prev => [...prev, ...newFiles])\<close>), so \<open>st\<close> is the state the
  update is applied to.
\<close>

definition handleFileChange ::
  "(jsstring \<Rightarrow> jsstring) \<Rightarrow> FileHandle list option \<Rightarrow> composer
     \<Rightarrow> effect list \<times> composer" where
  "handleFileChange lower files st =
     (case files of
        None \<Rightarrow> ([], st)
      | Some fs \<Rightarrow>
          if length fs = 0 then ([], st)
          else (case foldl (processFile lower) ([], []) fs of
                  (fx, newFiles) \<Rightarrow>
                    (fx, if length newFiles > 0
                         then st\<lparr>attachedFiles := attachedFiles st @ newFiles\<rparr>
                         else st)))"

subsection \<open>handleRemoveFile\<close>

text \<open>
  \<open>prev.filter((_, i) => i !== index)\<close>. The index is a number; an integer that is
  negative or too large is equal to no position.
\<close>

definition handleRemoveFile :: "int \<Rightarrow> composer \<Rightarrow> composer" where
  "handleRemoveFile index st =
     st\<lparr>attachedFiles :=
          map snd (filter (\<lambda>(i, _). int i \<noteq> index) (enumerate 0 (attachedFiles st)))\<rparr>"


section \<open>Notions of the specification\<close>

text \<open>
  The extension of a file name as the specification words it: the part after the last
  dot, lower-cased; and its set of allowed extensions, written without the dot.
\<close>

definition extension :: "(jsstring \<Rightarrow> jsstring) \<Rightarrow> jsstring \<Rightarrow> jsstring" where
  "extension lower nm = lower (last (split (of_char CHR ''.'') nm))"

definition allowedExtensions :: "jsstring list" where
  "allowedExtensions =
     map js [''txt'', ''md'', ''markdown'', ''json'', ''csv'', ''log'', ''xml'', ''yaml'', ''yml'']"

text \<open>
  The specification's condition for a selected file to be attached: an allowed
  extension, at most 1 MiB, and a read that succeeds.
\<close>

definition accepted :: "(jsstring \<Rightarrow> jsstring) \<Rightarrow> FileHandle \<Rightarrow> bool" where
  "accepted lower file \<longleftrightarrow>
     extension lower (file_name file) \<in> set allowedExtensions
     \<and> file_size file \<le> 1048576
     \<and> (case file_text file of Inr _ \<Rightarrow> True | Inl _ \<Rightarrow> False)"

text \<open>
  The attachment made of a file whose read succeeded (the empty content stands for a
  failed read, which \<open>accepted\<close> excludes).
\<close>

definition attachedOf :: "FileHandle \<Rightarrow> AttachedFile" where
  "attachedOf file =
     \<lparr>name = file_name file,
      content = (case file_text file of Inr txt \<Rightarrow> txt | Inl _ \<Rightarrow> []),
      type = (if file_type file \<noteq> [] then file_type file else js ''text/plain'')\<rparr>"

text \<open>The console call made for a file that is not attached.\<close>

definition rejectionLog :: "(jsstring \<Rightarrow> jsstring) \<Rightarrow> FileHandle \<Rightarrow> effect list" where
  "rejectionLog lower file =
     (if extension lower (file_name file) \<notin> set allowedExtensions then
        [ConsoleWarn (js ''File type '' @ fileExt lower (file_name file)
           @ js '' not supported. Only text-based files are allowed.'')]
      else if file_size file > 1048576 then
        [ConsoleWarn (js ''File '' @ file_name file @ js '' is too large. Maximum size is 1MB.'')]
      else (case file_text file of
              Inl err \<Rightarrow> [ConsoleError (js ''Error reading file '' @ file_name file @ js '':'') err]
            | Inr _ \<Rightarrow> []))"


text \<open>
  The payload as the specification words it: a block
  \<open><file-content name="...">\<close> per attachment, the blocks concatenated, inside an
  \<open><attached-files>\<close> envelope, after the text and two newlines when there is a text.
\<close>

definition spec_fileBlock :: "AttachedFile \<Rightarrow> jsstring" where
  "spec_fileBlock file =
     js ''\<newline>\<newline><file-content name=\"'' @ name file @ js ''\">\<newline>'' @ content file
       @ js ''\<newline></file-content>''"

definition spec_payload :: "jsstring \<Rightarrow> AttachedFile list \<Rightarrow> jsstring" where
  "spec_payload T files =
     (if T \<noteq> [] then T @ js ''\<newline>\<newline>'' else [])
       @ js ''<attached-files>'' @ concat (map spec_fileBlock files) @ js ''</attached-files>''"


text \<open>
  The display as the specification words it: after the text and two newlines when there
  is a text, one line per attachment, made of the attachment glyph, a space and the
  name. The glyph is the paperclip U+1F4CE, in UTF-16 the surrogate pair D83D DCCE.
\<close>

definition paperclip :: jsstring where
  "paperclip = [0xD83D, 0xDCCE]"

definition spec_display :: "jsstring \<Rightarrow> AttachedFile list \<Rightarrow> jsstring" where
  "spec_display T files =
     (if T \<noteq> [] then T @ js ''\<newline>\<newline>'' else [])
       @ join (js ''\<newline>'') (map (\<lambda>file. paperclip @ js '' '' @ name file) files)"


text \<open>The payloads and the displays the send callback was called with, in order.\<close>

definition sentPayloads :: "effect list \<Rightarrow> jsstring list" where
  "sentPayloads fx =
     concat (map (\<lambda>e. case e of OnSendMessage payload _ \<Rightarrow> [payload] | _ \<Rightarrow> []) fx)"

definition sentDisplays :: "effect list \<Rightarrow> jsstring list" where
  "sentDisplays fx =
     concat (map (\<lambda>e. case e of OnSendMessage _ display \<Rightarrow> [display] | _ \<Rightarrow> []) fx)"


section \<open>Submitting\<close>

text \<open>
  C3. With no attachment and a text that is not blank, submitting calls the send
  callback once, with the trimmed text as payload and as display.
\<close>

theorem submit_text_only:
  assumes "attachedFiles st = []" and "trim (textState st) \<noteq> []"
  shows "fst (handleSubmit props st) =
           [PreventDefault, OnSendMessage (trim (textState st)) (trim (textState st))]"
  using assms by (simp add: handleSubmit_def Let_def messageContent_def displayContent_def)

theorem submit_text_only_witness:
  "attachedFiles \<lparr>textState = js ''  Hello '', attachedFiles = []\<rparr> = []
   \<and> trim (textState \<lparr>textState = js ''  Hello '', attachedFiles = []\<rparr>) \<noteq> []
   \<and> fst (handleSubmit \<lparr>disabled = False, showStopButton = False, historicalSessionId = None\<rparr>
            \<lparr>textState = js ''  Hello '', attachedFiles = []\<rparr>) =
       [PreventDefault, OnSendMessage (js ''Hello'') (js ''Hello'')]"
proof -
  let ?st = "\<lparr>textState = js ''  Hello '', attachedFiles = []\<rparr>"
  have t: "trim (js ''  Hello '') = js ''Hello''"
    by (simp add: trim_def js_def isWhiteSpace_def)
  have a: "attachedFiles ?st = []" by simp
  have n: "trim (textState ?st) \<noteq> []" by (simp add: t) (simp add: js_def)
  show ?thesis
    using submit_text_only [OF a n] a n by (simp add: t)
qed

text \<open>
  C4. Whenever the guard of submit holds (the trimmed text is not empty, or there is an
  attachment), the send callback is called and the state after it has an empty text and
  no attachment.
\<close>

theorem submit_resets_state:
  assumes "trim (textState st) \<noteq> [] \<or> attachedFiles st \<noteq> []"
  shows "(\<exists>payload display. fst (handleSubmit props st) =
            [PreventDefault, OnSendMessage payload display])
         \<and> textState (snd (handleSubmit props st)) = []
         \<and> attachedFiles (snd (handleSubmit props st)) = []"
  using assms by (auto simp add: handleSubmit_def Let_def)

theorem submit_resets_state_witness:
  "attachedFiles \<lparr>textState = js ''hi'',
                    attachedFiles = [\<lparr>name = js ''a.txt'', content = js ''x'', type = js ''text/plain''\<rparr>]\<rparr> \<noteq> []
   \<and> snd (handleSubmit \<lparr>disabled = False, showStopButton = False, historicalSessionId = None\<rparr>
            \<lparr>textState = js ''hi'',
             attachedFiles = [\<lparr>name = js ''a.txt'', content = js ''x'', type = js ''text/plain''\<rparr>]\<rparr>)
       = \<lparr>textState = [], attachedFiles = []\<rparr>"
proof -
  let ?st = "\<lparr>textState = js ''hi'',
              attachedFiles = [\<lparr>name = js ''a.txt'', content = js ''x'', type = js ''text/plain''\<rparr>]\<rparr>"
  let ?p = "\<lparr>disabled = False, showStopButton = False, historicalSessionId = None\<rparr>"
  have a: "attachedFiles ?st \<noteq> []" by simp
  then have g: "trim (textState ?st) \<noteq> [] \<or> attachedFiles ?st \<noteq> []" by blast
  from submit_resets_state [OF g, of ?p]
  have "textState (snd (handleSubmit ?p ?st)) = []"
    and "attachedFiles (snd (handleSubmit ?p ?st)) = []" by blast+
  then have "snd (handleSubmit ?p ?st) = \<lparr>textState = [], attachedFiles = []\<rparr>"
    by (cases "snd (handleSubmit ?p ?st)") simp
  with a show ?thesis by blast
qed

text \<open>
  C5. When the trimmed text is empty and there is no attachment, submitting does not
  call the send callback and leaves the text and the attachments as they are.
\<close>

theorem submit_empty_noop:
  assumes "trim (textState st) = []" and "attachedFiles st = []"
  shows "(\<forall>payload display. OnSendMessage payload display \<notin> set (fst (handleSubmit props st)))
         \<and> snd (handleSubmit props st) = st"
  using assms by (simp add: handleSubmit_def)

theorem submit_empty_noop_witness:
  "trim (textState \<lparr>textState = js '' '', attachedFiles = []\<rparr>) = []
   \<and> attachedFiles \<lparr>textState = js '' '', attachedFiles = []\<rparr> = []
   \<and> handleSubmit \<lparr>disabled = False, showStopButton = False, historicalSessionId = None\<rparr>
        \<lparr>textState = js '' '', attachedFiles = []\<rparr>
       = ([PreventDefault], \<lparr>textState = js '' '', attachedFiles = []\<rparr>)"
proof -
  let ?st = "\<lparr>textState = js '' '', attachedFiles = []\<rparr>"
  let ?p = "\<lparr>disabled = False, showStopButton = False, historicalSessionId = None\<rparr>"
  have t: "trim (textState ?st) = []"
    by (simp add: trim_def js_def isWhiteSpace_def)
  have a: "attachedFiles ?st = []" by simp
  have "snd (handleSubmit ?p ?st) = ?st"
    using submit_empty_noop [OF t a, of ?p] by blast
  moreover have "fst (handleSubmit ?p ?st) = [PreventDefault]"
    using t by (simp add: handleSubmit_def)
  ultimately have "handleSubmit ?p ?st = ([PreventDefault], ?st)"
    by (simp add: prod_eq_iff)
  with t a show ?thesis by blast
qed

text \<open>
  C10. The disabled flag is not read by submit: with the composer disabled and the
  guard true, the send callback is still called and the state is cleared, exactly as
  with the flag off. The flag only disables the send button.
\<close>

theorem submit_ignores_disabled:
  assumes "disabled props" and "trim (textState st) \<noteq> [] \<or> attachedFiles st \<noteq> []"
  shows "fst (handleSubmit props st) =
           [PreventDefault,
            OnSendMessage (messageContent (trim (textState st)) (attachedFiles st))
                          (displayContent (trim (textState st)) (attachedFiles st))]
         \<and> snd (handleSubmit props st) = st\<lparr>textState := [], attachedFiles := []\<rparr>
         \<and> handleSubmit props st = handleSubmit (props\<lparr>disabled := False\<rparr>) st
         \<and> isSendButtonDisabled props st"
  using assms by (auto simp add: handleSubmit_def Let_def isSendButtonDisabled_def)

theorem submit_ignores_disabled_witness:
  "disabled \<lparr>disabled = True, showStopButton = False, historicalSessionId = None\<rparr>
   \<and> trim (textState \<lparr>textState = js ''go'', attachedFiles = []\<rparr>) \<noteq> []
   \<and> handleSubmit \<lparr>disabled = True, showStopButton = False, historicalSessionId = None\<rparr>
        \<lparr>textState = js ''go'', attachedFiles = []\<rparr>
       = ([PreventDefault, OnSendMessage (js ''go'') (js ''go'')],
          \<lparr>textState = [], attachedFiles = []\<rparr>)
   \<and> isSendButtonDisabled \<lparr>disabled = True, showStopButton = False, historicalSessionId = None\<rparr>
        \<lparr>textState = js ''go'', attachedFiles = []\<rparr>"
proof -
  let ?p = "\<lparr>disabled = True, showStopButton = False, historicalSessionId = None\<rparr>"
  let ?st = "\<lparr>textState = js ''go'', attachedFiles = []\<rparr>"
  have t: "trim (js ''go'') = js ''go''"
    by (simp add: trim_def js_def isWhiteSpace_def)
  have d: "disabled ?p" by simp
  have n: "trim (textState ?st) \<noteq> []" by (simp add: t) (simp add: js_def)
  then have g: "trim (textState ?st) \<noteq> [] \<or> attachedFiles ?st \<noteq> []" by blast
  show ?thesis
    using submit_ignores_disabled [OF d g] n
    by (simp add: t prod_eq_iff messageContent_def displayContent_def)
qed


text \<open>
  C1 (as the code has it). With at least one attachment, the payload is the trimmed text
  and two newlines (when the text is not empty), then the envelope
  \<open><nano_attached_files>\<close> around the blocks
  \<open><nano_file_content type="file" name="...">\<close>, one per attachment, with one newline
  between two consecutive blocks; the display is the same text prefix, then one line per
  attachment: the marker literal, a space and the name.
\<close>

theorem submit_with_attachments:
  assumes "attachedFiles st \<noteq> []"
  shows "fst (handleSubmit props st) =
    [PreventDefault,
     OnSendMessage
       ((if trim (textState st) = [] then [] else trim (textState st) @ js ''\<newline>\<newline>'')
          @ js ''<nano_attached_files>''
          @ join (js ''\<newline>'')
              (map (\<lambda>file. js ''\<newline>\<newline><nano_file_content type=\"file\" name=\"'' @ name file
                             @ js ''\">\<newline>'' @ content file @ js ''\<newline></nano_file_content>'')
                   (attachedFiles st))
          @ js ''</nano_attached_files>'')
       ((if trim (textState st) = [] then [] else trim (textState st) @ js ''\<newline>\<newline>'')
          @ join (js ''\<newline>'')
              (map (\<lambda>file. attachmentMarker @ js '' '' @ name file) (attachedFiles st)))]"
proof -
  have blocks: "fileBlock =
      (\<lambda>file. js ''\<newline>\<newline><nano_file_content type=\"file\" name=\"'' @ name file
                @ js ''\">\<newline>'' @ content file @ js ''\<newline></nano_file_content>'')"
    by (rule ext) (simp add: fileBlock_def)
  have envelope: "js ''\<newline>\<newline><nano_attached_files>'' = js ''\<newline>\<newline>'' @ js ''<nano_attached_files>''"
    by (simp add: js_def)
  from assms show ?thesis
    by (simp add: handleSubmit_def Let_def messageContent_def displayContent_def
          fileContents_def fileList_def envelope flip: blocks)
qed

theorem submit_with_attachments_witness:
  "attachedFiles \<lparr>textState = js ''Hello'',
       attachedFiles = [\<lparr>name = js ''a.txt'', content = js ''hi'', type = js ''text/plain''\<rparr>]\<rparr> \<noteq> []
   \<and> fst (handleSubmit \<lparr>disabled = False, showStopButton = False, historicalSessionId = None\<rparr>
       \<lparr>textState = js ''Hello'',
        attachedFiles = [\<lparr>name = js ''a.txt'', content = js ''hi'', type = js ''text/plain''\<rparr>]\<rparr>)
     = [PreventDefault,
        OnSendMessage
          (js ''Hello\<newline>\<newline><nano_attached_files>\<newline>\<newline><nano_file_content type=\"file\" name=\"a.txt\">\<newline>hi\<newline></nano_file_content></nano_attached_files>'')
          (js ''Hello\<newline>\<newline>'' @ attachmentMarker @ js '' a.txt'')]
   \<and> fst (handleSubmit \<lparr>disabled = False, showStopButton = False, historicalSessionId = None\<rparr>
       \<lparr>textState = js '' '',
        attachedFiles = [\<lparr>name = js ''a'', content = js ''1'', type = js ''text/plain''\<rparr>,
                         \<lparr>name = js ''b'', content = js ''2'', type = js ''text/plain''\<rparr>]\<rparr>)
     = [PreventDefault,
        OnSendMessage
          (js ''<nano_attached_files>\<newline>\<newline><nano_file_content type=\"file\" name=\"a\">\<newline>1\<newline></nano_file_content>\<newline>\<newline>\<newline><nano_file_content type=\"file\" name=\"b\">\<newline>2\<newline></nano_file_content></nano_attached_files>'')
          (attachmentMarker @ js '' a\<newline>'' @ attachmentMarker @ js '' b'')]"
proof -
  let ?p = "\<lparr>disabled = False, showStopButton = False, historicalSessionId = None\<rparr>"
  let ?one = "\<lparr>textState = js ''Hello'',
        attachedFiles = [\<lparr>name = js ''a.txt'', content = js ''hi'', type = js ''text/plain''\<rparr>]\<rparr>"
  let ?two = "\<lparr>textState = js '' '',
        attachedFiles = [\<lparr>name = js ''a'', content = js ''1'', type = js ''text/plain''\<rparr>,
                         \<lparr>name = js ''b'', content = js ''2'', type = js ''text/plain''\<rparr>]\<rparr>"
  have t: "trim (js ''Hello'') = js ''Hello''" "trim (js '' '') = []"
    by (simp_all add: trim_def js_def isWhiteSpace_def)
  have h: "js ''Hello'' \<noteq> []" by (simp add: js_def)
  have a: "attachedFiles ?one \<noteq> []" and b: "attachedFiles ?two \<noteq> []" by simp_all
  show ?thesis
    using submit_with_attachments [OF a, of ?p] submit_with_attachments [OF b, of ?p]
    by (simp add: t h) (simp add: js_def)
qed

text \<open>
  C1 as the specification states it fails: its payload for the text Hello and the
  attachment a.txt with content hi is not the payload of the code, which uses other tag
  names and a \<open>type\<close> attribute.
\<close>

theorem submit_payload_counterexample:
  "spec_payload (js ''Hello'')
       [\<lparr>name = js ''a.txt'', content = js ''hi'', type = js ''text/plain''\<rparr>]
     = js ''Hello\<newline>\<newline><attached-files>\<newline>\<newline><file-content name=\"a.txt\">\<newline>hi\<newline></file-content></attached-files>''
   \<and> fst (handleSubmit \<lparr>disabled = False, showStopButton = False, historicalSessionId = None\<rparr>
       \<lparr>textState = js ''Hello'',
        attachedFiles = [\<lparr>name = js ''a.txt'', content = js ''hi'', type = js ''text/plain''\<rparr>]\<rparr>)
     \<noteq> [PreventDefault,
         OnSendMessage
           (spec_payload (js ''Hello'')
              [\<lparr>name = js ''a.txt'', content = js ''hi'', type = js ''text/plain''\<rparr>])
           (displayContent (js ''Hello'')
              [\<lparr>name = js ''a.txt'', content = js ''hi'', type = js ''text/plain''\<rparr>])]"
proof -
  have t: "trim (js ''Hello'') = js ''Hello''"
    by (simp add: trim_def js_def isWhiteSpace_def)
  show ?thesis
    by (simp add: handleSubmit_def Let_def t spec_payload_def spec_fileBlock_def
          messageContent_def fileContents_def fileBlock_def)
       (simp add: js_def)
qed



text \<open>
  With at least one attachment, the payload is the text prefix and the envelope around
  one block per attachment, in the order of the sequence, each block holding the name
  and then the content of its attachment between fixed tags; the display is the text
  prefix and one line per attachment, in the same order, made of the marker literal, a
  space and the name. The display is computed from the text and the names alone:
  attachments with the same names and any other contents give the same display.
\<close>

lemma submit_contents_and_names:
  assumes "attachedFiles st \<noteq> []"
  shows "sentPayloads (fst (handleSubmit props st)) =
      [(if trim (textState st) = [] then [] else trim (textState st) @ js ''\<newline>\<newline>'')
         @ js ''<nano_attached_files>''
         @ join (js ''\<newline>'')
             (map (\<lambda>file. js ''\<newline>\<newline><nano_file_content type=\"file\" name=\"'' @ name file
                            @ js ''\">\<newline>'' @ content file @ js ''\<newline></nano_file_content>'')
                  (attachedFiles st))
         @ js ''</nano_attached_files>'']
    \<and> sentDisplays (fst (handleSubmit props st)) =
      [(if trim (textState st) = [] then [] else trim (textState st) @ js ''\<newline>\<newline>'')
         @ join (js ''\<newline>'')
             (map (\<lambda>file. attachmentMarker @ js '' '' @ name file) (attachedFiles st))]
    \<and> (\<forall>st'. textState st' = textState st
             \<and> map name (attachedFiles st') = map name (attachedFiles st) \<longrightarrow>
           sentDisplays (fst (handleSubmit props st')) =
           sentDisplays (fst (handleSubmit props st)))"
proof -
  have blocks: "fileBlock =
      (\<lambda>file. js ''\<newline>\<newline><nano_file_content type=\"file\" name=\"'' @ name file
                @ js ''\">\<newline>'' @ content file @ js ''\<newline></nano_file_content>'')"
    by (rule ext) (simp add: fileBlock_def)
  have envelope: "js ''\<newline>\<newline><nano_attached_files>'' = js ''\<newline>\<newline>'' @ js ''<nano_attached_files>''"
    by (simp add: js_def)
  have lines: "fileList files =
      join (js ''\<newline>'') (map (\<lambda>n. attachmentMarker @ js '' '' @ n) (map name files))"
    for files
    by (simp add: fileList_def comp_def)
  have display: "sentDisplays (fst (handleSubmit props s)) =
      [(if trim (textState s) = [] then [] else trim (textState s) @ js ''\<newline>\<newline>'')
         @ fileList (attachedFiles s)]"
    if "attachedFiles s \<noteq> []" for s
    using that by (simp add: handleSubmit_def Let_def sentDisplays_def displayContent_def)
  have same: "sentDisplays (fst (handleSubmit props st')) =
              sentDisplays (fst (handleSubmit props st))"
    if "textState st' = textState st"
      and "map name (attachedFiles st') = map name (attachedFiles st)" for st'
  proof -
    from that(2) assms have "attachedFiles st' \<noteq> []" by auto
    with that assms show ?thesis by (simp add: display lines)
  qed
  have payload: "sentPayloads (fst (handleSubmit props st)) =
      [(if trim (textState st) = [] then [] else trim (textState st) @ js ''\<newline>\<newline>'')
         @ js ''<nano_attached_files>''
         @ join (js ''\<newline>'')
             (map (\<lambda>file. js ''\<newline>\<newline><nano_file_content type=\"file\" name=\"'' @ name file
                            @ js ''\">\<newline>'' @ content file @ js ''\<newline></nano_file_content>'')
                  (attachedFiles st))
         @ js ''</nano_attached_files>'']"
    using assms
    by (simp add: handleSubmit_def Let_def sentPayloads_def messageContent_def
          fileContents_def envelope flip: blocks)
  show ?thesis
  proof (intro conjI allI impI)
    show "sentPayloads (fst (handleSubmit props st)) =
      [(if trim (textState st) = [] then [] else trim (textState st) @ js ''\<newline>\<newline>'')
         @ js ''<nano_attached_files>''
         @ join (js ''\<newline>'')
             (map (\<lambda>file. js ''\<newline>\<newline><nano_file_content type=\"file\" name=\"'' @ name file
                            @ js ''\">\<newline>'' @ content file @ js ''\<newline></nano_file_content>'')
                  (attachedFiles st))
         @ js ''</nano_attached_files>'']"
      by (rule payload)
  next
    show "sentDisplays (fst (handleSubmit props st)) =
      [(if trim (textState st) = [] then [] else trim (textState st) @ js ''\<newline>\<newline>'')
         @ join (js ''\<newline>'')
             (map (\<lambda>file. attachmentMarker @ js '' '' @ name file) (attachedFiles st))]"
      using display [OF assms] by (simp add: fileList_def)
  next
    fix st' :: composer
    assume "textState st' = textState st
             \<and> map name (attachedFiles st') = map name (attachedFiles st)"
    then show "sentDisplays (fst (handleSubmit props st')) =
               sentDisplays (fst (handleSubmit props st))"
      using same by blast
  qed
qed

lemma submit_contents_and_names_example:
  "attachedFiles \<lparr>textState = js ''hi'',
       attachedFiles = [\<lparr>name = js ''a.txt'', content = js ''one'', type = js ''text/plain''\<rparr>,
                        \<lparr>name = js ''b.md'', content = js ''two'', type = js ''text/plain''\<rparr>]\<rparr> \<noteq> []
   \<and> sentPayloads (fst (handleSubmit
         \<lparr>disabled = False, showStopButton = False, historicalSessionId = None\<rparr>
         \<lparr>textState = js ''hi'',
          attachedFiles = [\<lparr>name = js ''a.txt'', content = js ''one'', type = js ''text/plain''\<rparr>,
                           \<lparr>name = js ''b.md'', content = js ''two'', type = js ''text/plain''\<rparr>]\<rparr>))
     = [js ''hi\<newline>\<newline><nano_attached_files>\<newline>\<newline><nano_file_content type=\"file\" name=\"a.txt\">\<newline>one\<newline></nano_file_content>\<newline>\<newline>\<newline><nano_file_content type=\"file\" name=\"b.md\">\<newline>two\<newline></nano_file_content></nano_attached_files>'']
   \<and> sentDisplays (fst (handleSubmit
         \<lparr>disabled = False, showStopButton = False, historicalSessionId = None\<rparr>
         \<lparr>textState = js ''hi'',
          attachedFiles = [\<lparr>name = js ''a.txt'', content = js ''one'', type = js ''text/plain''\<rparr>,
                           \<lparr>name = js ''b.md'', content = js ''two'', type = js ''text/plain''\<rparr>]\<rparr>))
     = [js ''hi\<newline>\<newline>'' @ attachmentMarker @ js '' a.txt\<newline>'' @ attachmentMarker @ js '' b.md'']
   \<and> sentDisplays (fst (handleSubmit
         \<lparr>disabled = False, showStopButton = False, historicalSessionId = None\<rparr>
         \<lparr>textState = js ''hi'',
          attachedFiles = [\<lparr>name = js ''a.txt'', content = js ''three'', type = js ''text/csv''\<rparr>,
                           \<lparr>name = js ''b.md'', content = [], type = js ''text/plain''\<rparr>]\<rparr>))
     = [js ''hi\<newline>\<newline>'' @ attachmentMarker @ js '' a.txt\<newline>'' @ attachmentMarker @ js '' b.md'']"
proof -
  let ?p = "\<lparr>disabled = False, showStopButton = False, historicalSessionId = None\<rparr>"
  let ?st = "\<lparr>textState = js ''hi'',
       attachedFiles = [\<lparr>name = js ''a.txt'', content = js ''one'', type = js ''text/plain''\<rparr>,
                        \<lparr>name = js ''b.md'', content = js ''two'', type = js ''text/plain''\<rparr>]\<rparr>"
  let ?st' = "\<lparr>textState = js ''hi'',
       attachedFiles = [\<lparr>name = js ''a.txt'', content = js ''three'', type = js ''text/csv''\<rparr>,
                        \<lparr>name = js ''b.md'', content = [], type = js ''text/plain''\<rparr>]\<rparr>"
  have t: "trim (js ''hi'') = js ''hi''"
    by (simp add: trim_def js_def isWhiteSpace_def)
  have h: "js ''hi'' \<noteq> []" by (simp add: js_def)
  have a: "attachedFiles ?st \<noteq> []" by simp
  note inst = submit_contents_and_names [OF a, of ?p]
  have p: "sentPayloads (fst (handleSubmit ?p ?st))
     = [js ''hi\<newline>\<newline><nano_attached_files>\<newline>\<newline><nano_file_content type=\"file\" name=\"a.txt\">\<newline>one\<newline></nano_file_content>\<newline>\<newline>\<newline><nano_file_content type=\"file\" name=\"b.md\">\<newline>two\<newline></nano_file_content></nano_attached_files>'']"
    using inst [THEN conjunct1] by (simp add: t h) (simp add: js_def)
  have d: "sentDisplays (fst (handleSubmit ?p ?st))
     = [js ''hi\<newline>\<newline>'' @ attachmentMarker @ js '' a.txt\<newline>'' @ attachmentMarker @ js '' b.md'']"
    using inst [THEN conjunct2, THEN conjunct1] by (simp add: t h) (simp add: js_def)
  from inst [THEN conjunct2, THEN conjunct2, THEN spec, of ?st'] have "textState ?st' = textState ?st
             \<and> map name (attachedFiles ?st') = map name (attachedFiles ?st) \<longrightarrow>
           sentDisplays (fst (handleSubmit ?p ?st')) = sentDisplays (fst (handleSubmit ?p ?st))"
    .
  then have d': "sentDisplays (fst (handleSubmit ?p ?st')) = sentDisplays (fst (handleSubmit ?p ?st))"
    by simp
  from a p d d' show ?thesis by (simp only:) simp
qed

text \<open>
  C2. The specification has every name of the display prefixed with the attachment
  glyph, the paperclip U+1F4CE. The literal of the source is not that glyph but the
  four code points its UTF-8 bytes give when read as Windows-1252, so with at least one
  attachment the display of the code is never the display of the specification. For
  the text Hello and the attachment a.txt with content hi, the display sent is Hello,
  two newlines, U+00F0 U+0178 U+201C U+017D, a space and a.txt; the paperclip does not
  occur in it.
\<close>

theorem submit_display_glyph:
  "(attachedFiles st \<noteq> [] \<longrightarrow>
      sentDisplays (fst (handleSubmit props st)) \<noteq>
        [spec_display (trim (textState st)) (attachedFiles st)])
   \<and> sentDisplays (fst (handleSubmit
         \<lparr>disabled = False, showStopButton = False, historicalSessionId = None\<rparr>
         \<lparr>textState = js ''Hello'',
          attachedFiles = [\<lparr>name = js ''a.txt'', content = js ''hi'', type = js ''text/plain''\<rparr>]\<rparr>))
       = [js ''Hello\<newline>\<newline>'' @ [0x00F0, 0x0178, 0x201C, 0x017D] @ js '' a.txt'']
   \<and> spec_display (js ''Hello'')
         [\<lparr>name = js ''a.txt'', content = js ''hi'', type = js ''text/plain''\<rparr>]
       = js ''Hello\<newline>\<newline>'' @ [0xD83D, 0xDCCE] @ js '' a.txt''
   \<and> \<not> sublist paperclip
         (js ''Hello\<newline>\<newline>'' @ [0x00F0, 0x0178, 0x201C, 0x017D] @ js '' a.txt'')"
proof -
  have first: "join sep (y # ys) = y @ (if ys = [] then [] else sep @ join sep ys)"
    for sep y :: jsstring and ys
    by (cases ys) simp_all
  have differ: "join (js ''\<newline>'') (map (\<lambda>file. attachmentMarker @ js '' '' @ name file) files)
      \<noteq> join (js ''\<newline>'') (map (\<lambda>file. paperclip @ js '' '' @ name file) files)"
    if "files \<noteq> []" for files
    using that by (cases files) (simp_all add: first attachmentMarker_def paperclip_def)
  have general: "sentDisplays (fst (handleSubmit props st)) \<noteq>
        [spec_display (trim (textState st)) (attachedFiles st)]"
    if "attachedFiles st \<noteq> []"
    using that differ [OF that]
    by (simp add: handleSubmit_def Let_def sentDisplays_def displayContent_def fileList_def
          spec_display_def)
  have t: "trim (js ''Hello'') = js ''Hello''"
    by (simp add: trim_def js_def isWhiteSpace_def)
  have h: "js ''Hello'' \<noteq> []" by (simp add: js_def)
  have sent: "sentDisplays (fst (handleSubmit
         \<lparr>disabled = False, showStopButton = False, historicalSessionId = None\<rparr>
         \<lparr>textState = js ''Hello'',
          attachedFiles = [\<lparr>name = js ''a.txt'', content = js ''hi'', type = js ''text/plain''\<rparr>]\<rparr>))
       = [js ''Hello\<newline>\<newline>'' @ [0x00F0, 0x0178, 0x201C, 0x017D] @ js '' a.txt'']"
    by (simp add: handleSubmit_def Let_def t h sentDisplays_def displayContent_def fileList_def
          attachmentMarker_def)
       (simp add: js_def)
  have spec: "spec_display (js ''Hello'')
         [\<lparr>name = js ''a.txt'', content = js ''hi'', type = js ''text/plain''\<rparr>]
       = js ''Hello\<newline>\<newline>'' @ [0xD83D, 0xDCCE] @ js '' a.txt''"
    by (simp add: spec_display_def h paperclip_def) (simp add: js_def)
  have absent: "\<not> sublist paperclip
         (js ''Hello\<newline>\<newline>'' @ [0x00F0, 0x0178, 0x201C, 0x017D] @ js '' a.txt'')"
    by (simp add: paperclip_def js_def sublist_code)
  from general sent spec absent show ?thesis by blast
qed

theorem submit_display_glyph_witness:
  "attachedFiles \<lparr>textState = js '' '',
       attachedFiles = [\<lparr>name = js ''a'', content = js ''1'', type = js ''text/plain''\<rparr>,
                        \<lparr>name = js ''b'', content = js ''2'', type = js ''text/plain''\<rparr>]\<rparr> \<noteq> []
   \<and> sentDisplays (fst (handleSubmit
         \<lparr>disabled = False, showStopButton = False, historicalSessionId = None\<rparr>
         \<lparr>textState = js '' '',
          attachedFiles = [\<lparr>name = js ''a'', content = js ''1'', type = js ''text/plain''\<rparr>,
                           \<lparr>name = js ''b'', content = js ''2'', type = js ''text/plain''\<rparr>]\<rparr>))
     \<noteq> [paperclip @ js '' a\<newline>'' @ paperclip @ js '' b'']"
proof -
  let ?p = "\<lparr>disabled = False, showStopButton = False, historicalSessionId = None\<rparr>"
  let ?st = "\<lparr>textState = js '' '',
       attachedFiles = [\<lparr>name = js ''a'', content = js ''1'', type = js ''text/plain''\<rparr>,
                        \<lparr>name = js ''b'', content = js ''2'', type = js ''text/plain''\<rparr>]\<rparr>"
  have t: "trim (js '' '') = []"
    by (simp add: trim_def js_def isWhiteSpace_def)
  have a: "attachedFiles ?st \<noteq> []" by simp
  have s: "spec_display [] [\<lparr>name = js ''a'', content = js ''1'', type = js ''text/plain''\<rparr>,
                            \<lparr>name = js ''b'', content = js ''2'', type = js ''text/plain''\<rparr>]
      = paperclip @ js '' a\<newline>'' @ paperclip @ js '' b''"
    by (simp add: spec_display_def js_def)
  from submit_display_glyph [of ?st ?p, THEN conjunct1] a
  have "sentDisplays (fst (handleSubmit ?p ?st)) \<noteq>
          [spec_display (trim (textState ?st)) (attachedFiles ?st)]"
    by blast
  then have "sentDisplays (fst (handleSubmit ?p ?st))
     \<noteq> [paperclip @ js '' a\<newline>'' @ paperclip @ js '' b'']"
    by (simp add: t s)
  with a show ?thesis by blast
qed


section \<open>Attaching files\<close>

lemma split_not_Nil: "split sep s \<noteq> []"
  by (induction s) (auto split: list.splits)

lemma split_no_sep: "sep \<notin> set s \<Longrightarrow> split sep s = [s]"
  by (induction s) auto

lemma fileExt_extension: "fileExt lower nm = js ''.'' @ extension lower nm"
  by (simp add: fileExt_def extension_def pop_def split_not_Nil)

lemma allowedTypes_extension:
  "includes_arr allowedTypes (fileExt lower nm) \<longleftrightarrow> extension lower nm \<in> set allowedExtensions"
  by (simp add: fileExt_extension includes_arr_def allowedTypes_def allowedExtensions_def js_def)

lemma processFile_step:
  "processFile lower (fx, newFiles) file =
     (fx @ rejectionLog lower file,
      newFiles @ (if accepted lower file then [attachedOf file] else []))"
  by (simp add: processFile_def allowedTypes_extension rejectionLog_def accepted_def
        attachedOf_def split: sum.splits)

lemma foldl_processFile:
  "foldl (processFile lower) (fx, newFiles) files =
     (fx @ concat (map (rejectionLog lower) files),
      newFiles @ map attachedOf (filter (accepted lower) files))"
  by (induction files arbitrary: fx newFiles) (simp_all add: processFile_step)

lemma rejectionLog_length:
  "length (rejectionLog lower file) = (if accepted lower file then 0 else 1)"
  by (simp add: rejectionLog_def accepted_def split: sum.splits)

lemma handleFileChange_eq:
  "handleFileChange lower (Some files) st =
     (concat (map (rejectionLog lower) files),
      st\<lparr>attachedFiles := attachedFiles st @ map attachedOf (filter (accepted lower) files)\<rparr>)"
  by (simp add: handleFileChange_def foldl_processFile)

text \<open>
  C6. Of a selection, exactly the files with an allowed extension, a size of at most
  1 MiB and a successful read are appended, in the order of the selection; every other
  file is skipped with one console warning or error, the handler returns normally
  whatever the reads do, and the text is not touched.
\<close>

theorem attach_appends_accepted:
  "snd (handleFileChange lower (Some files) st) =
     st\<lparr>attachedFiles := attachedFiles st @ map attachedOf (filter (accepted lower) files)\<rparr>
   \<and> fst (handleFileChange lower (Some files) st) = concat (map (rejectionLog lower) files)
   \<and> length (fst (handleFileChange lower (Some files) st)) =
       length (filter (\<lambda>file. \<not> accepted lower file) files)
   \<and> list_all (\<lambda>e. case e of ConsoleWarn _ \<Rightarrow> True | ConsoleError _ _ \<Rightarrow> True | _ \<Rightarrow> False)
        (fst (handleFileChange lower (Some files) st))
   \<and> handleFileChange lower None st = ([], st)"
proof -
  have "length (concat (map (rejectionLog lower) files)) =
          length (filter (\<lambda>file. \<not> accepted lower file) files)"
    by (induction files) (simp_all add: rejectionLog_length)
  moreover
  have "list_all (\<lambda>e. case e of ConsoleWarn _ \<Rightarrow> True | ConsoleError _ _ \<Rightarrow> True | _ \<Rightarrow> False)
          (concat (map (rejectionLog lower) files))"
    by (induction files) (simp_all add: rejectionLog_def split: sum.splits)
  ultimately show ?thesis
    by (simp add: handleFileChange_eq) (simp add: handleFileChange_def)
qed

theorem attach_appends_accepted_witness:
  "handleFileChange asciiLowerCase
     (Some [\<lparr>file_name = js ''run.exe'', file_size = 10,
              file_type = js ''application/x-msdownload'', file_text = Inr (js ''MZ'')\<rparr>,
            \<lparr>file_name = js ''big.txt'', file_size = 1048577,
              file_type = js ''text/plain'', file_text = Inr (js ''x'')\<rparr>,
            \<lparr>file_name = js ''gone.md'', file_size = 3,
              file_type = [], file_text = Inl NotFoundError\<rparr>,
            \<lparr>file_name = js ''Notes.TXT'', file_size = 1048576,
              file_type = [], file_text = Inr (js ''hi'')\<rparr>])
     \<lparr>textState = js ''q'', attachedFiles = []\<rparr>
    = ([ConsoleWarn (js ''File type .exe not supported. Only text-based files are allowed.''),
        ConsoleWarn (js ''File big.txt is too large. Maximum size is 1MB.''),
        ConsoleError (js ''Error reading file gone.md:'') NotFoundError],
       \<lparr>textState = js ''q'',
        attachedFiles = [\<lparr>name = js ''Notes.TXT'', content = js ''hi'', type = js ''text/plain''\<rparr>]\<rparr>)
   \<and> snd (handleFileChange asciiLowerCase
        (Some [\<lparr>file_name = js ''run.exe'', file_size = 10,
                 file_type = js ''application/x-msdownload'', file_text = Inr (js ''MZ'')\<rparr>])
        \<lparr>textState = js ''q'', attachedFiles = []\<rparr>)
      = \<lparr>textState = js ''q'', attachedFiles = []\<rparr>
   \<and> snd (handleFileChange asciiLowerCase
        (Some [\<lparr>file_name = js ''big.txt'', file_size = 1048577,
                 file_type = js ''text/plain'', file_text = Inr (js ''x'')\<rparr>])
        \<lparr>textState = js ''q'', attachedFiles = []\<rparr>)
      = \<lparr>textState = js ''q'', attachedFiles = []\<rparr>"
proof -
  let ?exe = "\<lparr>file_name = js ''run.exe'', file_size = 10,
              file_type = js ''application/x-msdownload'', file_text = Inr (js ''MZ'')\<rparr>"
  let ?big = "\<lparr>file_name = js ''big.txt'', file_size = 1048577,
              file_type = js ''text/plain'', file_text = Inr (js ''x'')\<rparr>"
  let ?gone = "\<lparr>file_name = js ''gone.md'', file_size = 3,
              file_type = [], file_text = Inl NotFoundError\<rparr>"
  let ?notes = "\<lparr>file_name = js ''Notes.TXT'', file_size = 1048576,
              file_type = [], file_text = Inr (js ''hi'')\<rparr>"
  let ?st = "\<lparr>textState = js ''q'', attachedFiles = []\<rparr>"
  have e: "extension asciiLowerCase (js ''run.exe'') = js ''exe''"
    "extension asciiLowerCase (js ''big.txt'') = js ''txt''"
    "extension asciiLowerCase (js ''gone.md'') = js ''md''"
    "extension asciiLowerCase (js ''Notes.TXT'') = js ''txt''"
    by (simp_all add: extension_def asciiLowerCase_def js_def)
  have m: "js ''exe'' \<notin> set allowedExtensions" "js ''txt'' \<in> set allowedExtensions"
    "js ''md'' \<in> set allowedExtensions"
    by (simp_all add: allowedExtensions_def js_def)
  have a: "\<not> accepted asciiLowerCase ?exe" "\<not> accepted asciiLowerCase ?big"
    "\<not> accepted asciiLowerCase ?gone" "accepted asciiLowerCase ?notes"
    by (simp_all add: accepted_def e m)
  have l: "rejectionLog asciiLowerCase ?exe =
             [ConsoleWarn (js ''File type .exe not supported. Only text-based files are allowed.'')]"
    "rejectionLog asciiLowerCase ?big =
       [ConsoleWarn (js ''File big.txt is too large. Maximum size is 1MB.'')]"
    "rejectionLog asciiLowerCase ?gone =
       [ConsoleError (js ''Error reading file gone.md:'') NotFoundError]"
    "rejectionLog asciiLowerCase ?notes = []"
    by (simp_all add: rejectionLog_def fileExt_extension e m) (simp_all add: js_def)
  show ?thesis
    using attach_appends_accepted [of asciiLowerCase "[?exe, ?big, ?gone, ?notes]" ?st]
      attach_appends_accepted [of asciiLowerCase "[?exe]" ?st]
      attach_appends_accepted [of asciiLowerCase "[?big]" ?st]
    by (simp add: prod_eq_iff a l attachedOf_def)
qed

text \<open>
  C9. A file name without a dot is its own last segment, so its extension is the dot
  followed by the whole lower-cased name: a file named README is rejected, and a file
  named txt (of at most 1 MiB, with a read that succeeds) is attached.
\<close>

theorem extension_without_dot:
  "(of_char CHR ''.'' \<notin> set nm \<longrightarrow> fileExt lower nm = js ''.'' @ lower nm)
   \<and> handleFileChange asciiLowerCase
        (Some [\<lparr>file_name = js ''README'', file_size = sz, file_type = ty, file_text = tx\<rparr>]) st
      = ([ConsoleWarn (js ''File type .readme not supported. Only text-based files are allowed.'')],
         st)
   \<and> (sz \<le> 1048576 \<longrightarrow>
        handleFileChange asciiLowerCase
          (Some [\<lparr>file_name = js ''txt'', file_size = sz, file_type = ty, file_text = Inr c\<rparr>]) st
        = ([], st\<lparr>attachedFiles := attachedFiles st @
                    [\<lparr>name = js ''txt'', content = c,
                      type = (if ty \<noteq> [] then ty else js ''text/plain'')\<rparr>]\<rparr>))"
proof -
  have dotless: "fileExt lower nm = js ''.'' @ lower nm" if "of_char CHR ''.'' \<notin> set nm"
    using that by (simp add: fileExt_def pop_def split_no_sep)
  have e: "extension asciiLowerCase (js ''README'') = js ''readme''"
    "extension asciiLowerCase (js ''txt'') = js ''txt''"
    by (simp_all add: extension_def asciiLowerCase_def js_def)
  have m: "js ''readme'' \<notin> set allowedExtensions" "js ''txt'' \<in> set allowedExtensions"
    by (simp_all add: allowedExtensions_def js_def)
  have readme: "handleFileChange asciiLowerCase
        (Some [\<lparr>file_name = js ''README'', file_size = sz, file_type = ty, file_text = tx\<rparr>]) st
      = ([ConsoleWarn (js ''File type .readme not supported. Only text-based files are allowed.'')],
         st)"
    by (simp add: handleFileChange_eq rejectionLog_def accepted_def fileExt_extension e m)
       (simp add: js_def)
  have plain: "handleFileChange asciiLowerCase
          (Some [\<lparr>file_name = js ''txt'', file_size = sz, file_type = ty, file_text = Inr c\<rparr>]) st
        = ([], st\<lparr>attachedFiles := attachedFiles st @
                    [\<lparr>name = js ''txt'', content = c,
                      type = (if ty \<noteq> [] then ty else js ''text/plain'')\<rparr>]\<rparr>)"
    if "sz \<le> 1048576"
    using that
    by (simp add: handleFileChange_eq rejectionLog_def accepted_def attachedOf_def e m)
  from dotless readme plain show ?thesis by blast
qed

theorem extension_without_dot_witness:
  "of_char CHR ''.'' \<notin> set (js ''Makefile'')
   \<and> fileExt asciiLowerCase (js ''Makefile'') = js ''.makefile''
   \<and> (5::nat) \<le> 1048576
   \<and> handleFileChange asciiLowerCase
        (Some [\<lparr>file_name = js ''txt'', file_size = 5, file_type = [],
                 file_text = Inr (js ''hello'')\<rparr>])
        \<lparr>textState = [], attachedFiles = []\<rparr>
      = ([], \<lparr>textState = [],
              attachedFiles = [\<lparr>name = js ''txt'', content = js ''hello'',
                                type = js ''text/plain''\<rparr>]\<rparr>)
   \<and> handleFileChange asciiLowerCase
        (Some [\<lparr>file_name = js ''README'', file_size = 5, file_type = [],
                 file_text = Inr (js ''hello'')\<rparr>])
        \<lparr>textState = [], attachedFiles = []\<rparr>
      = ([ConsoleWarn (js ''File type .readme not supported. Only text-based files are allowed.'')],
         \<lparr>textState = [], attachedFiles = []\<rparr>)"
proof -
  have d: "of_char CHR ''.'' \<notin> set (js ''Makefile'')" by (simp add: js_def)
  have lc: "asciiLowerCase (js ''Makefile'') = js ''makefile''"
    by (simp add: asciiLowerCase_def js_def)
  have s: "(5::nat) \<le> 1048576" by simp
  show ?thesis
    using extension_without_dot [of "js ''Makefile''" asciiLowerCase 5 "[]" "Inr (js ''hello'')"
        "\<lparr>textState = [], attachedFiles = []\<rparr>" "js ''hello''"] d s
    by (simp add: lc) (simp add: js_def)
qed


section \<open>Keys\<close>

text \<open>
  C8. The key handler runs submit exactly when the key is Enter, Shift is not held and
  no composition is in progress; Shift+Enter and every other key do nothing. When the
  guard of submit holds, the send callback is therefore called exactly in that case.
\<close>

theorem keydown_submit:
  "(key e = js ''Enter'' \<and> \<not> shiftKey e \<and> \<not> isComposing e \<longrightarrow>
      handleKeyDown props e st =
        (PreventDefault # fst (handleSubmit props st), snd (handleSubmit props st)))
   \<and> (key e = js ''Enter'' \<and> shiftKey e \<longrightarrow> handleKeyDown props e st = ([], st))
   \<and> (key e \<noteq> js ''Enter'' \<longrightarrow> handleKeyDown props e st = ([], st))
   \<and> (handleKeyDown props e st \<noteq> ([], st) \<longleftrightarrow>
        key e = js ''Enter'' \<and> \<not> shiftKey e \<and> \<not> isComposing e)
   \<and> (trim (textState st) \<noteq> [] \<or> attachedFiles st \<noteq> [] \<longrightarrow>
        ((\<exists>payload display.
            OnSendMessage payload display \<in> set (fst (handleKeyDown props e st))) \<longleftrightarrow>
         key e = js ''Enter'' \<and> \<not> shiftKey e \<and> \<not> isComposing e))"
  by (auto simp add: handleKeyDown_def handleSubmit_def Let_def split: prod.splits)

theorem keydown_submit_witness:
  "handleKeyDown \<lparr>disabled = False, showStopButton = False, historicalSessionId = None\<rparr>
     \<lparr>key = js ''Enter'', shiftKey = False, isComposing = False\<rparr>
     \<lparr>textState = js ''go'', attachedFiles = []\<rparr>
    = ([PreventDefault, PreventDefault, OnSendMessage (js ''go'') (js ''go'')],
       \<lparr>textState = [], attachedFiles = []\<rparr>)
   \<and> handleKeyDown \<lparr>disabled = False, showStopButton = False, historicalSessionId = None\<rparr>
       \<lparr>key = js ''Enter'', shiftKey = True, isComposing = False\<rparr>
       \<lparr>textState = js ''go'', attachedFiles = []\<rparr>
      = ([], \<lparr>textState = js ''go'', attachedFiles = []\<rparr>)
   \<and> handleKeyDown \<lparr>disabled = False, showStopButton = False, historicalSessionId = None\<rparr>
       \<lparr>key = js ''a'', shiftKey = False, isComposing = False\<rparr>
       \<lparr>textState = js ''go'', attachedFiles = []\<rparr>
      = ([], \<lparr>textState = js ''go'', attachedFiles = []\<rparr>)"
proof -
  let ?p = "\<lparr>disabled = False, showStopButton = False, historicalSessionId = None\<rparr>"
  let ?st = "\<lparr>textState = js ''go'', attachedFiles = []\<rparr>"
  have t: "trim (js ''go'') = js ''go''"
    by (simp add: trim_def js_def isWhiteSpace_def)
  have s: "handleSubmit ?p ?st =
             ([PreventDefault, OnSendMessage (js ''go'') (js ''go'')],
              \<lparr>textState = [], attachedFiles = []\<rparr>)"
    by (simp add: handleSubmit_def Let_def t messageContent_def displayContent_def)
       (simp add: js_def)
  have k: "js ''a'' \<noteq> js ''Enter''" by (simp add: js_def)
  show ?thesis
    using keydown_submit [of "\<lparr>key = js ''Enter'', shiftKey = False, isComposing = False\<rparr>" ?p ?st]
      keydown_submit [of "\<lparr>key = js ''Enter'', shiftKey = True, isComposing = False\<rparr>" ?p ?st]
      keydown_submit [of "\<lparr>key = js ''a'', shiftKey = False, isComposing = False\<rparr>" ?p ?st]
    by (simp add: s k)
qed


section \<open>Removing an attachment\<close>

lemma remove_index_enumerate:
  "map snd (filter (\<lambda>(j, _). int j \<noteq> i) (enumerate n xs)) =
     (if int n \<le> i \<and> i < int (n + length xs)
      then take (nat i - n) xs @ drop (Suc (nat i - n)) xs else xs)"
proof (induction xs arbitrary: n)
  case Nil
  show ?case by simp
next
  case (Cons x xs)
  show ?case
  proof (cases "int n = i")
    case True
    then show ?thesis using Cons [of "Suc n"] by auto
  next
    case False
    show ?thesis
    proof (cases "int (Suc n) \<le> i \<and> i < int (Suc n + length xs)")
      case True
      then have "nat i - n = Suc (nat i - Suc n)" by linarith
      with True False show ?thesis using Cons [of "Suc n"] by auto
    next
      case outside: False
      with False show ?thesis using Cons [of "Suc n"] by auto
    qed
  qed
qed

text \<open>
  C7. Removing at a valid position drops exactly the entry at that position and keeps
  the others in their order; removing at a position out of range changes nothing.
\<close>

theorem remove_file:
  "(0 \<le> i \<and> i < int (length (attachedFiles st)) \<longrightarrow>
      attachedFiles (handleRemoveFile i st) =
        take (nat i) (attachedFiles st) @ drop (Suc (nat i)) (attachedFiles st)
      \<and> length (attachedFiles (handleRemoveFile i st)) = length (attachedFiles st) - 1)
   \<and> (i < 0 \<or> int (length (attachedFiles st)) \<le> i \<longrightarrow> handleRemoveFile i st = st)
   \<and> textState (handleRemoveFile i st) = textState st"
  by (auto simp add: handleRemoveFile_def remove_index_enumerate)

theorem remove_file_witness:
  "handleRemoveFile 1
     \<lparr>textState = js ''t'',
      attachedFiles = [\<lparr>name = js ''a'', content = js ''1'', type = js ''text/plain''\<rparr>,
                       \<lparr>name = js ''b'', content = js ''2'', type = js ''text/plain''\<rparr>,
                       \<lparr>name = js ''c'', content = js ''3'', type = js ''text/plain''\<rparr>]\<rparr>
    = \<lparr>textState = js ''t'',
       attachedFiles = [\<lparr>name = js ''a'', content = js ''1'', type = js ''text/plain''\<rparr>,
                        \<lparr>name = js ''c'', content = js ''3'', type = js ''text/plain''\<rparr>]\<rparr>
   \<and> handleRemoveFile 3
       \<lparr>textState = js ''t'',
        attachedFiles = [\<lparr>name = js ''a'', content = js ''1'', type = js ''text/plain''\<rparr>,
                         \<lparr>name = js ''b'', content = js ''2'', type = js ''text/plain''\<rparr>,
                         \<lparr>name = js ''c'', content = js ''3'', type = js ''text/plain''\<rparr>]\<rparr>
      = \<lparr>textState = js ''t'',
         attachedFiles = [\<lparr>name = js ''a'', content = js ''1'', type = js ''text/plain''\<rparr>,
                          \<lparr>name = js ''b'', content = js ''2'', type = js ''text/plain''\<rparr>,
                          \<lparr>name = js ''c'', content = js ''3'', type = js ''text/plain''\<rparr>]\<rparr>
   \<and> handleRemoveFile (- 1)
       \<lparr>textState = js ''t'',
        attachedFiles = [\<lparr>name = js ''a'', content = js ''1'', type = js ''text/plain''\<rparr>,
                         \<lparr>name = js ''b'', content = js ''2'', type = js ''text/plain''\<rparr>,
                         \<lparr>name = js ''c'', content = js ''3'', type = js ''text/plain''\<rparr>]\<rparr>
      = \<lparr>textState = js ''t'',
         attachedFiles = [\<lparr>name = js ''a'', content = js ''1'', type = js ''text/plain''\<rparr>,
                          \<lparr>name = js ''b'', content = js ''2'', type = js ''text/plain''\<rparr>,
                          \<lparr>name = js ''c'', content = js ''3'', type = js ''text/plain''\<rparr>]\<rparr>"
proof -
  let ?st = "\<lparr>textState = js ''t'',
      attachedFiles = [\<lparr>name = js ''a'', content = js ''1'', type = js ''text/plain''\<rparr>,
                       \<lparr>name = js ''b'', content = js ''2'', type = js ''text/plain''\<rparr>,
                       \<lparr>name = js ''c'', content = js ''3'', type = js ''text/plain''\<rparr>]\<rparr>"
  have "attachedFiles (handleRemoveFile 1 ?st) =
          take (nat 1) (attachedFiles ?st) @ drop (Suc (nat 1)) (attachedFiles ?st)"
    and "textState (handleRemoveFile 1 ?st) = textState ?st"
    using remove_file [of 1 ?st] by simp_all
  then have one: "handleRemoveFile 1 ?st =
      \<lparr>textState = js ''t'',
       attachedFiles = [\<lparr>name = js ''a'', content = js ''1'', type = js ''text/plain''\<rparr>,
                        \<lparr>name = js ''c'', content = js ''3'', type = js ''text/plain''\<rparr>]\<rparr>"
    by (cases "handleRemoveFile 1 ?st") simp
  have three: "handleRemoveFile 3 ?st = ?st"
    using remove_file [of 3 ?st] by simp
  have neg: "handleRemoveFile (- 1) ?st = ?st"
    using remove_file [of "- 1" ?st] by simp
  from one three neg show ?thesis by simp
qed

end
